theory Spec2Isabelle
  imports Complex_Main "HOL-Library.Sublist"
begin

section \<open>Values, errors and external capabilities\<close>

text \<open>
  The scraper is JavaScript. Values that flow through the pagination accumulator are
  dynamically typed, so they are modelled by a datatype of JavaScript values. Numbers
  are mathematical integers here (page numbers and indices); \<open>NaN\<close> and fractions
  are outside the model. Strings are lists of code units.
\<close>

datatype jsval =
    Undefined
  | Null
  | Bool bool
  | Num int
  | Str string
  | Arr "jsval list"
  | Obj "(string \<times> jsval) list"

text \<open>Every \<open>throw\<close> of the source is a constructor; the arguments are the values
  interpolated into the message.\<close>

datatype error =
    InvalidType string                \<comment> \<open>\<open>is.invalidType\<close>: the name of the offending value\<close>
  | Unavailable string                \<comment> \<open>\<open>fetchCheerioAPI\<close>: the URL\<close>
  | EmptySelection string             \<comment> \<open>\<open>is.emptySelection\<close>: the selector\<close>
  | MissingAttribute string string    \<comment> \<open>\<open>extractAttrValues\<close>: selector, attribute\<close>
  | InvalidUrl string                 \<comment> \<open>\<open>getBaseUrl\<close>\<close>
  | InvalidUrlPair string string      \<comment> \<open>\<open>convertToAbsolute\<close>\<close>
  | LinksNamesMismatch                \<comment> \<open>\<open>extractProductsBasicInfoFromList\<close>\<close>
  | ImagesCardsMismatch               \<comment> \<open>\<open>filterProductCardsFromPage\<close>\<close>
  | DescriptionsCardsMismatch         \<comment> \<open>\<open>filterProductCardsFromPage\<close>\<close>
  | SearchEngineBroken                \<comment> \<open>\<open>searchProduct\<close>: no candidates\<close>
  | NoCloseProduct                    \<comment> \<open>\<open>searchProduct\<close>: relevance 0\<close>
  | FuseCannotFind string             \<comment> \<open>\<open>fuseSearchProduct\<close>: the product name\<close>
  | TypeError                         \<comment> \<open>a property read on \<open>undefined\<close>\<close>
  | CallbackError string              \<comment> \<open>whatever a caller-supplied callback throws\<close>

subsection \<open>Truthiness, \<open>Array.prototype.find\<close>, lodash's \<open>isEqual\<close>\<close>

fun truthy :: "jsval \<Rightarrow> bool" where
  "truthy Undefined = False"
| "truthy Null = False"
| "truthy (Bool b) = b"
| "truthy (Num n) = (n \<noteq> 0)"
| "truthy (Str s) = (s \<noteq> [])"
| "truthy (Arr xs) = True"
| "truthy (Obj ps) = True"

text \<open>\<open>arr.find(p)\<close>: the first element satisfying \<open>p\<close>, or \<open>undefined\<close>.\<close>

fun jsFind :: "(jsval \<Rightarrow> bool) \<Rightarrow> jsval list \<Rightarrow> jsval" where
  "jsFind p [] = Undefined"
| "jsFind p (v # vs) = (if p v then v else jsFind p vs)"

text \<open>\<open>arr[0]\<close>: \<open>undefined\<close> on an empty array.\<close>

fun index0 :: "jsval list \<Rightarrow> jsval" where
  "index0 [] = Undefined"
| "index0 (v # vs) = v"

text \<open>
  \<open>_.isEqual\<close>: deep comparison. Arrays are compared element by element, objects by
  their own keys whatever their order (objects are association lists with distinct
  keys).
\<close>

fun isEqual :: "jsval \<Rightarrow> jsval \<Rightarrow> bool"
  and isEqualElems :: "jsval list \<Rightarrow> jsval list \<Rightarrow> bool"
  and hasEqualProp :: "string \<Rightarrow> jsval \<Rightarrow> (string \<times> jsval) list \<Rightarrow> bool"
  and isEqualProps :: "(string \<times> jsval) list \<Rightarrow> (string \<times> jsval) list \<Rightarrow> bool"
where
  "isEqual Undefined b = (b = Undefined)"
| "isEqual Null b = (b = Null)"
| "isEqual (Bool x) b = (b = Bool x)"
| "isEqual (Num x) b = (b = Num x)"
| "isEqual (Str x) b = (b = Str x)"
| "isEqual (Arr xs) (Arr ys) = isEqualElems xs ys"
| "isEqual (Arr xs) b = False"
| "isEqual (Obj ps) (Obj qs) = (length ps = length qs \<and> isEqualProps ps qs)"
| "isEqual (Obj ps) b = False"
| "isEqualElems [] ys = (ys = [])"
| "isEqualElems (x # xs) [] = False"
| "isEqualElems (x # xs) (y # ys) = (isEqual x y \<and> isEqualElems xs ys)"
| "hasEqualProp k v [] = False"
| "hasEqualProp k v ((k', v') # qs) = (if k = k' then isEqual v v' else hasEqualProp k v qs)"
| "isEqualProps [] qs = True"
| "isEqualProps ((k, v) # ps) qs = (hasEqualProp k v qs \<and> isEqualProps ps qs)"

subsection \<open>Fuse.js\<close>

text \<open>\<open>FUSE_DEFAULT_OPTIONS\<close>, the module-level options object of \<open>fuse-product.js\<close>.\<close>

record fuseOptions =
  isCaseSensitive :: bool
  includeScore :: bool
  includeMatches :: bool
  minMatchCharLength :: nat
  shouldSort :: bool
  findAllMatches :: bool
  threshold :: real
  ignoreLocation :: bool
  useExtendedSearch :: bool
  fieldNormWeight :: real

definition FUSE_DEFAULT_OPTIONS :: fuseOptions where
  "FUSE_DEFAULT_OPTIONS =
     \<lparr> isCaseSensitive = False, includeScore = True, includeMatches = False,
       minMatchCharLength = 1, shouldSort = True, findAllMatches = False,
       threshold = 1, ignoreLocation = True, useExtendedSearch = True,
       fieldNormWeight = 0 \<rparr>"

text \<open>One hit of \<open>fuse.search\<close>: the index of the item in the searched list and its
  score (lower is closer).\<close>

record fuseResult =
  refIndex :: nat
  score :: real

text \<open>\<open>config.fuseOptionsBrand\<close> and \<open>config.fuseOptionsBrandless\<close>.\<close>

record thresholds =
  firstScore :: real
  firstScoreWarning :: real
  difference :: real

text \<open>\<open>assessRelevance\<close>. Reading \<open>results[0].score\<close> of an empty array throws.\<close>

fun assessRelevance :: "fuseResult list \<Rightarrow> thresholds \<Rightarrow> error + nat" where
  "assessRelevance [] th = Inl TypeError"
| "assessRelevance (r0 # rest) th =
     (if score r0 \<ge> firstScore th then Inr 0
      else if score r0 \<ge> firstScoreWarning th then Inr 1
      else if length (r0 # rest) > 1 \<and> score (hd rest) - score r0 < difference th then Inr 2
      else Inr 3)"

subsection \<open>The platform: fetch, cheerio, URL, Fuse.js\<close>

text \<open>
  What the code calls and does not define is a capability of the platform. A fetch acts
  on the outside world \<open>'w\<close> and may return a different page each time; a parsed
  document is a \<open>'d\<close>, a selected element an \<open>'e\<close>.
\<close>

record ('w, 'd, 'e) platform =
  fetchLoad :: "string \<Rightarrow> 'w \<Rightarrow> 'd option \<times> 'w"
    \<comment> \<open>\<open>fetch(url)\<close>, \<open>response.text()\<close>, \<open>cheerio.load(html)\<close>; \<open>None\<close> when one of them throws\<close>
  select :: "'d \<Rightarrow> string \<Rightarrow> 'e list"              \<comment> \<open>\<open>$(selector)\<close>\<close>
  elemText :: "'e \<Rightarrow> string"                       \<comment> \<open>\<open>els.eq(i).text()\<close>\<close>
  elemAttr :: "'e \<Rightarrow> string \<Rightarrow> string option"      \<comment> \<open>\<open>els.eq(i).attr(name)\<close>\<close>
  urlOrigin :: "string \<Rightarrow> string option"
    \<comment> \<open>\<open>new URL(url)\<close>, then \<open>protocol + "//" + host\<close>; \<open>None\<close> when it throws\<close>
  urlResolve :: "string \<Rightarrow> string \<Rightarrow> string option"
    \<comment> \<open>\<open>new URL(url, base).toString()\<close>; \<open>None\<close> when it throws\<close>
  toLowerCase :: "string \<Rightarrow> string"
  fuseSearch :: "fuseOptions \<Rightarrow> string list \<Rightarrow> string \<Rightarrow> fuseResult list"
    \<comment> \<open>\<open>new Fuse(names, options).search(query)\<close>\<close>

section \<open>Configuration\<close>

record productListSelectors =
  names :: string
  links :: string
  images :: string
  descriptions :: string

text \<open>\<open>config.placeholders\<close>; the field \<open>image\<close> is \<open>image_placeholder\<close> here, clear of
  the image of a set.\<close>

record placeholders =
  image_placeholder :: string
  description :: string

text \<open>\<open>config.paginations\<close>: each entry is a pair of strings after the constructor's
  merge with the default \<open>['', '']\<close>.\<close>

record paginations =
  catalog :: "string \<times> string"
  search :: "string \<times> string"

text \<open>The fields of \<open>this.config\<close> that the modelled functions read. An unconfigured
  selector or placeholder is the empty string, as in the constructor's defaults.\<close>

record config =
  baseUrl :: string
  brands :: "string list"
  listSelectors :: productListSelectors
  placeholderValues :: placeholders
  paginationUrls :: paginations
  fuseOptionsBrand :: thresholds
  fuseOptionsBrandless :: thresholds

section \<open>The pagination engine (\<open>constructor.js\<close>)\<close>

definition fetchCheerioAPI ::
  "('w, 'd, 'e) platform \<Rightarrow> string \<Rightarrow> 'w \<Rightarrow> (error + 'd) \<times> 'w" where
  "fetchCheerioAPI P u w =
     (case fetchLoad P u w of
        (None, w') \<Rightarrow> (Inl (Unavailable u), w')
      | (Some doc, w') \<Rightarrow> (Inr doc, w'))"

text \<open>\<open>url + pageNum\<close>: the decimal digits of an integer, with a minus sign (what
  JavaScript prints for an integer below \<open>10^21\<close>).\<close>

fun digits :: "nat \<Rightarrow> string" where
  "digits n =
     (if n < 10 then [''0123456789'' ! n]
      else digits (n div 10) @ [''0123456789'' ! (n mod 10)])"

declare digits.simps [simp del]

definition numberToString :: "int \<Rightarrow> string" where
  "numberToString i = (if i < 0 then CHR ''-'' # digits (nat (- i)) else digits (nat i))"

text \<open>The argument \<open>pagination\<close>; \<open>None\<close> is an absent (or \<open>null\<close>) field. The field
  \<open>last\<close> is \<open>last_page\<close> here, clear of the list function.\<close>

record pagination =
  url :: string
  first :: "int option"
  last_page :: "int option"

text \<open>
  The \<open>while\<close> loop of \<open>iterateOverPagination\<close>, from the state \<open>(acc, pageNum)\<close>.
  The loop need not terminate, so the result is an option: \<open>None\<close> is a run that
  never returns.
\<close>

partial_function (option) paginationLoop ::
  "('w, 'd, 'e) platform \<Rightarrow> ('d \<Rightarrow> error + jsval list) \<Rightarrow> string \<Rightarrow> int \<Rightarrow> int option \<Rightarrow>
   jsval list \<Rightarrow> int \<Rightarrow> 'w \<Rightarrow> ((error + jsval list) \<times> 'w) option" where
  "paginationLoop env callback u startPageNum lst acc pageNum w =
     (if (case lst of None \<Rightarrow> True | Some l \<Rightarrow> pageNum \<le> l) then
        (case fetchCheerioAPI env (u @ numberToString pageNum) w of
           (Inl e, w') \<Rightarrow> Some (Inl e, w')
         | (Inr doc, w') \<Rightarrow>
             (case callback doc of
                Inl e \<Rightarrow>
                  if pageNum = startPageNum then Some (Inl e, w') else Some (Inr acc, w')
              | Inr data \<Rightarrow>
                  if truthy (jsFind (\<lambda>val. isEqual val (index0 data)) acc)
                  then Some (Inr acc, w')
                  else paginationLoop env callback u startPageNum lst (acc @ data)
                         (pageNum + 1) w'))
      else Some (Inr acc, w))"

definition iterateOverPagination ::
  "('w, 'd, 'e) platform \<Rightarrow> pagination \<Rightarrow> ('d \<Rightarrow> error + jsval list) \<Rightarrow> 'w \<Rightarrow>
   ((error + jsval list) \<times> 'w) option" where
  "iterateOverPagination P pg callback w =
     (let startPageNum = (case first pg of None \<Rightarrow> 1 | Some f \<Rightarrow> f)
      in paginationLoop P callback (pagination.url pg) startPageNum (last_page pg) []
           startPageNum w)"

section \<open>Extraction (\<open>extract.js\<close>, \<open>url.js\<close>)\<close>

text \<open>White space as \<open>String.prototype.trim\<close> and the regular expression class
  \<open>\s\<close> see it, among the code units below 256.\<close>

definition isSpace :: "char \<Rightarrow> bool" where
  "isSpace c = (c \<in> set [CHR 0x09, CHR 0x0A, CHR 0x0B, CHR 0x0C, CHR 0x0D, CHR 0x20, CHR 0xA0])"

definition trim :: "string \<Rightarrow> string" where
  "trim s = rev (dropWhile isSpace (rev (dropWhile isSpace s)))"

definition extractTextContents ::
  "('w, 'd, 'e) platform \<Rightarrow> 'd \<Rightarrow> string \<Rightarrow> error + string list" where
  "extractTextContents P doc selector =
     (let els = select P doc selector
      in if length els = 0 then Inl (EmptySelection selector)
         else Inr (map (\<lambda>el. trim (elemText P el)) els))"

definition extractAttrValues ::
  "('w, 'd, 'e) platform \<Rightarrow> 'd \<Rightarrow> string \<Rightarrow> string \<Rightarrow> error + string list" where
  "extractAttrValues P doc selector attrName =
     (let els = select P doc selector
      in if length els = 0 then Inl (EmptySelection selector)
         else (case those (map (\<lambda>el. elemAttr P el attrName) els) of
                 None \<Rightarrow> Inl (MissingAttribute selector attrName)
               | Some vals \<Rightarrow> Inr vals))"

definition getBaseUrl :: "('w, 'd, 'e) platform \<Rightarrow> string \<Rightarrow> error + string" where
  "getBaseUrl P u = (case urlOrigin P u of None \<Rightarrow> Inl (InvalidUrl u) | Some b \<Rightarrow> Inr b)"

text \<open>The \<open>urls.map\<close> of \<open>convertToAbsolute\<close>: the first URL that does not resolve
  throws.\<close>

fun resolveAll ::
  "('w, 'd, 'e) platform \<Rightarrow> string \<Rightarrow> string \<Rightarrow> string list \<Rightarrow> error + string list" where
  "resolveAll P base validatedBaseUrl [] = Inr []"
| "resolveAll P base validatedBaseUrl (u # us) =
     (case urlResolve P u validatedBaseUrl of
        None \<Rightarrow> Inl (InvalidUrlPair u base)
      | Some a \<Rightarrow>
          (case resolveAll P base validatedBaseUrl us of
             Inl e \<Rightarrow> Inl e
           | Inr as \<Rightarrow> Inr (a # as)))"

definition convertToAbsolute ::
  "('w, 'd, 'e) platform \<Rightarrow> string list \<Rightarrow> string \<Rightarrow> error + string list" where
  "convertToAbsolute P urls base =
     (case getBaseUrl P base of
        Inl e \<Rightarrow> Inl e
      | Inr validatedBaseUrl \<Rightarrow> resolveAll P base validatedBaseUrl urls)"

definition extractUrls ::
  "('w, 'd, 'e) platform \<Rightarrow> 'd \<Rightarrow> string \<Rightarrow> string \<Rightarrow> string \<Rightarrow> error + string list" where
  "extractUrls P doc selector attrName base =
     (case extractAttrValues P doc selector attrName of
        Inl e \<Rightarrow> Inl e
      | Inr urls \<Rightarrow> if base \<noteq> [] then convertToAbsolute P urls base else Inr urls)"

definition extractProductNamesFromList ::
  "('w, 'd, 'e) platform \<Rightarrow> config \<Rightarrow> 'd \<Rightarrow> error + string list" where
  "extractProductNamesFromList P cfg doc =
     extractTextContents P doc (names (listSelectors cfg))"

definition extractProductPageUrlsFromList ::
  "('w, 'd, 'e) platform \<Rightarrow> config \<Rightarrow> 'd \<Rightarrow> error + string list" where
  "extractProductPageUrlsFromList P cfg doc =
     extractUrls P doc (links (listSelectors cfg)) ''href'' (baseUrl cfg)"

definition extractProductImageUrlsFromList ::
  "('w, 'd, 'e) platform \<Rightarrow> config \<Rightarrow> 'd \<Rightarrow> error + string list" where
  "extractProductImageUrlsFromList P cfg doc =
     extractUrls P doc (images (listSelectors cfg)) ''src'' (baseUrl cfg)"

definition extractProductDescriptionsFromList ::
  "('w, 'd, 'e) platform \<Rightarrow> config \<Rightarrow> 'd \<Rightarrow> error + string list" where
  "extractProductDescriptionsFromList P cfg doc =
     extractTextContents P doc (descriptions (listSelectors cfg))"

text \<open>\<open>recognizeBrand\<close>: the first brand the name starts with, else the first brand it
  contains, else the empty string.\<close>

definition recognizeBrand :: "('w, 'd, 'e) platform \<Rightarrow> config \<Rightarrow> string \<Rightarrow> string" where
  "recognizeBrand P cfg productName =
     (let productNameLowerCase = toLowerCase P productName
      in case find (\<lambda>brand. prefix (toLowerCase P brand) productNameLowerCase) (brands cfg) of
           Some brand \<Rightarrow> brand
         | None \<Rightarrow>
             (case find (\<lambda>brand. sublist (toLowerCase P brand) productNameLowerCase)
                     (brands cfg) of
                Some brand \<Rightarrow> brand
              | None \<Rightarrow> []))"

text \<open>\<open>extractProductsBasicInfoFromList\<close>: one object \<open>{name, brand, url}\<close> per card.\<close>

definition extractProductsBasicInfoFromList ::
  "('w, 'd, 'e) platform \<Rightarrow> config \<Rightarrow> 'd \<Rightarrow> error + jsval list" where
  "extractProductsBasicInfoFromList P cfg doc =
     (case extractProductNamesFromList P cfg doc of
        Inl e \<Rightarrow> Inl e
      | Inr nms \<Rightarrow>
          (case extractProductPageUrlsFromList P cfg doc of
             Inl e \<Rightarrow> Inl e
           | Inr urls \<Rightarrow>
               if length nms \<noteq> length urls then Inl LinksNamesMismatch
               else Inr (map (\<lambda>(nm, i).
                          Obj [(''name'', Str nm),
                               (''brand'', Str (recognizeBrand P cfg nm)),
                               (''url'', Str (urls ! i))])
                        (zip nms [0..<length nms]))))"

section \<open>Card filtering (\<open>filter.js\<close>)\<close>

text \<open>The loop \<open>for (i = 0; i < vals.length; i++) exist[i] = vals[i] !== placeholder\<close>.
  A write beyond the end of a JavaScript array extends it; the length check before the
  loop excludes that, and \<open>list_update\<close> leaves the list as it is there.\<close>

definition markExisting :: "string list \<Rightarrow> string \<Rightarrow> bool list \<Rightarrow> bool list" where
  "markExisting vals placeholder exist =
     foldl (\<lambda>ex i. ex[i := (vals ! i \<noteq> placeholder)]) exist [0..<length vals]"

definition filterProductCardsFromPage ::
  "('w, 'd, 'e) platform \<Rightarrow> config \<Rightarrow> 'd \<Rightarrow> ('d \<Rightarrow> error + 'a list) \<Rightarrow> (bool \<Rightarrow> bool \<Rightarrow> bool) \<Rightarrow>
   error + 'a list" where
  "filterProductCardsFromPage P cfg doc callback filterFunction =
     (case callback doc of
        Inl e \<Rightarrow> Inl e
      | Inr data \<Rightarrow>
          (case (if images (listSelectors cfg) \<noteq> [] \<and> image_placeholder (placeholderValues cfg) \<noteq> []
                 then (case extractProductImageUrlsFromList P cfg doc of
                         Inl e \<Rightarrow> Inl e
                       | Inr imgUrls \<Rightarrow>
                           if length imgUrls \<noteq> length data then Inl ImagesCardsMismatch
                           else Inr (markExisting imgUrls (image_placeholder (placeholderValues cfg))
                                       (replicate (length data) False)))
                 else Inr (replicate (length data) False)) of
             Inl e \<Rightarrow> Inl e
           | Inr imgExist \<Rightarrow>
               (case (if descriptions (listSelectors cfg) \<noteq> [] \<and>
                         description (placeholderValues cfg) \<noteq> []
                      then (case extractProductDescriptionsFromList P cfg doc of
                              Inl e \<Rightarrow> Inl e
                            | Inr descs \<Rightarrow>
                                if length descs \<noteq> length data
                                then Inl DescriptionsCardsMismatch
                                else Inr (markExisting descs (description (placeholderValues cfg))
                                            (replicate (length data) False)))
                      else Inr (replicate (length data) False)) of
                  Inl e \<Rightarrow> Inl e
                | Inr desExist \<Rightarrow>
                    Inr (map fst
                          (filter (\<lambda>(card, i). filterFunction (imgExist ! i) (desExist ! i))
                             (zip data [0..<length data]))))))"

section \<open>Fuzzy matching (\<open>fuse-product.js\<close>)\<close>

text \<open>\<open>normalize\<close>: \<open>str.replace(/[\{\}\[\]()\.,+\-]/g, "").replace(/[\s/|\\]+/g, " ")\<close>.
  The second replacement turns every maximal run of separators into one space; the flag
  says whether the previous character belonged to the current run.\<close>

definition isPunctuation :: "char \<Rightarrow> bool" where
  "isPunctuation c = (c \<in> set ''{}[]().,+-'')"

definition isSeparator :: "char \<Rightarrow> bool" where
  "isSeparator c = (isSpace c \<or> c = CHR ''/'' \<or> c = CHR ''|'' \<or> c = CHR 0x5C)"

fun collapseSeparators :: "bool \<Rightarrow> string \<Rightarrow> string" where
  "collapseSeparators inRun [] = []"
| "collapseSeparators inRun (c # cs) =
     (if isSeparator c
      then (if inRun then collapseSeparators True cs
            else CHR '' '' # collapseSeparators True cs)
      else c # collapseSeparators False cs)"

definition normalize_name :: "string \<Rightarrow> string" where
  "normalize_name str = collapseSeparators False (filter (\<lambda>c. \<not> isPunctuation c) str)"

text \<open>\<open>s.replace(/\s/, " '")\<close> replaces the first white space only,
  \<open>s.replace(/\s/g, " '")\<close> every one.\<close>

fun replaceFirstSpace :: "string \<Rightarrow> string" where
  "replaceFirstSpace [] = []"
| "replaceFirstSpace (c # cs) =
     (if isSpace c then [CHR '' '', CHR 0x27] @ cs else c # replaceFirstSpace cs)"

definition replaceEverySpace :: "string \<Rightarrow> string" where
  "replaceEverySpace s = concat (map (\<lambda>c. if isSpace c then [CHR '' '', CHR 0x27] else [c]) s)"

text \<open>The extended-search query by name and brand:
  \<open>" '" + name.replace(/\s/, " '") + " '" + brand.replace(/\s/g, " '")\<close>.\<close>

definition brandQuery :: "string \<Rightarrow> string \<Rightarrow> string" where
  "brandQuery nm br =
     [CHR '' '', CHR 0x27] @ replaceFirstSpace nm @ [CHR '' '', CHR 0x27] @ replaceEverySpace br"

text \<open>The argument \<open>basicInfo\<close>; \<open>None\<close> is an absent field.\<close>

record basicInfo =
  name :: "string option"
  brand :: "string option"
  url :: "string option"

text \<open>The truthiness of an optional string: present and not empty.\<close>

definition truthyString :: "string option \<Rightarrow> bool" where
  "truthyString v = (case v of None \<Rightarrow> False | Some s \<Rightarrow> s \<noteq> [])"

record fuseMatch =
  index :: nat
  relevance :: nat

text \<open>
  The end of \<open>fuseSearchProduct\<close>, from \<open>const relevance = assessRelevance(...)\<close> on.
  \<open>opts\<close> is the current content of the module-level object
  \<open>FUSE_DEFAULT_OPTIONS\<close>, which the local \<open>options\<close> aliases: the assignment
  \<open>options.fieldNormWeight = 0.5\<close> writes to it, so the function returns the object
  as it leaves it.
\<close>

definition rankFirst ::
  "('w, 'd, 'e) platform \<Rightarrow> fuseOptions \<Rightarrow> string list \<Rightarrow> string \<Rightarrow> fuseResult list \<Rightarrow>
   thresholds \<Rightarrow> (error + fuseMatch) \<times> fuseOptions" where
  "rankFirst P opts nms query result th =
     (case assessRelevance result th of
        Inl e \<Rightarrow> (Inl e, opts)
      | Inr rel \<Rightarrow>
          (let opts' = (if rel = 2 then opts\<lparr>fieldNormWeight := 1 / 2\<rparr> else opts);
               result' = (if rel = 2 then fuseSearch P opts' nms query else result)
           in case result' of
                [] \<Rightarrow> (Inl TypeError, opts')
              | r0 # rest \<Rightarrow> (Inr \<lparr>index = refIndex r0, relevance = rel\<rparr>, opts')))"

definition fuseSearchProduct ::
  "('w, 'd, 'e) platform \<Rightarrow> fuseOptions \<Rightarrow> basicInfo \<Rightarrow> string list \<Rightarrow> thresholds \<Rightarrow>
   thresholds \<Rightarrow> (error + fuseMatch) \<times> fuseOptions" where
  "fuseSearchProduct P opts info productNames optionsBrand optionsBrandless =
     (case name info of
        None \<Rightarrow> (Inl TypeError, opts)
      | Some rawName \<Rightarrow>
          (let nm = normalize_name rawName;
               nms = map normalize_name productNames;
               queryByBrand = brandQuery nm (normalize_name (the (brand info)));
               resultByBrand =
                 (if truthyString (brand info) then fuseSearch P opts nms queryByBrand else [])
           in if length resultByBrand = 0
              then (let result = fuseSearch P opts nms nm
                    in if length result = 0 then (Inl (FuseCannotFind rawName), opts)
                       else rankFirst P opts nms nm result optionsBrandless)
              else rankFirst P opts nms queryByBrand resultByBrand optionsBrand))"

section \<open>Product search (\<open>search.js\<close>)\<close>

text \<open>\<open>names || links || images || descriptions\<close>: the first selector that is not
  empty, else the last one.\<close>

definition anyListSelector :: "productListSelectors \<Rightarrow> string" where
  "anyListSelector s =
     (if names s \<noteq> [] then names s
      else if links s \<noteq> [] then links s
      else if images s \<noteq> [] then images s
      else descriptions s)"

definition hasSearchResult ::
  "('w, 'd, 'e) platform \<Rightarrow> config \<Rightarrow> string \<Rightarrow> 'w \<Rightarrow> (error + bool) \<times> 'w" where
  "hasSearchResult P cfg query w =
     (case fetchCheerioAPI P (fst (search (paginationUrls cfg)) @ query) w of
        (Inl e, w') \<Rightarrow> (Inl e, w')
      | (Inr doc, w') \<Rightarrow>
          (Inr (length (select P doc (anyListSelector (listSelectors cfg))) \<noteq> 0), w'))"

text \<open>The \<open>while\<close> loop of \<open>getOptimalForSearchSubstring\<close>, over the probe
  \<open>this.hasSearchResult\<close>. \<open>query.substring(0, n)\<close> is \<open>take n query\<close>.\<close>

function narrowLoop ::
  "(string \<Rightarrow> 'w \<Rightarrow> (error + bool) \<times> 'w) \<Rightarrow> string \<Rightarrow> int \<Rightarrow> int \<Rightarrow> 'w \<Rightarrow>
   (error + string) \<times> 'w" where
  "narrowLoop probe query left right w =
     (if right - left > 1 then
        (let middle = (left + right) div 2;
             substr = take (nat (middle + 1)) query
         in case probe substr w of
              (Inl e, w') \<Rightarrow> (Inl e, w')
            | (Inr hasResult, w') \<Rightarrow>
                if hasResult then narrowLoop probe query middle right w'
                else narrowLoop probe query left middle w')
      else (Inr (take (nat (left + 1)) query), w))"
  by pat_completeness auto
termination
  by (relation "measure (\<lambda>(probe, query, left, right, w). nat (right - left))") auto

declare narrowLoop.simps [simp del]

definition getOptimalForSearchSubstring ::
  "('w, 'd, 'e) platform \<Rightarrow> config \<Rightarrow> string \<Rightarrow> 'w \<Rightarrow> (error + string) \<times> 'w" where
  "getOptimalForSearchSubstring P cfg query w =
     (case hasSearchResult P cfg query w of
        (Inl e, w') \<Rightarrow> (Inl e, w')
      | (Inr hasResult, w') \<Rightarrow>
          if hasResult then (Inr query, w')
          else narrowLoop (hasSearchResult P cfg) query 1 (int (length query)) w')"

text \<open>A property read \<open>obj.key\<close>: it throws on \<open>undefined\<close> and \<open>null\<close> and gives
  \<open>undefined\<close> when the key is missing.\<close>

fun getProp :: "jsval \<Rightarrow> string \<Rightarrow> error + jsval" where
  "getProp Undefined k = Inl TypeError"
| "getProp Null k = Inl TypeError"
| "getProp (Obj ps) k = Inr (case map_of ps k of None \<Rightarrow> Undefined | Some v \<Rightarrow> v)"
| "getProp v k = Inr Undefined"

text \<open>\<open>basicInfoList.map(obj => obj.name)\<close>, as the strings that \<open>normalize\<close> accepts:
  \<open>name.replace\<close> throws on anything else.\<close>

fun productNamesOf :: "jsval list \<Rightarrow> error + string list" where
  "productNamesOf [] = Inr []"
| "productNamesOf (obj # objs) =
     (case getProp obj ''name'' of
        Inr (Str nm) \<Rightarrow>
          (case productNamesOf objs of Inl e \<Rightarrow> Inl e | Inr nms \<Rightarrow> Inr (nm # nms))
      | _ \<Rightarrow> Inl TypeError)"

text \<open>
  \<open>searchProduct\<close>. The state is the outside world and the module-level Fuse options;
  the result is \<open>None\<close> when the pagination over the search results never ends. The
  argument checks hold by typing, except that of \<open>getOptimalForSearchSubstring\<close> for
  its query, an absent \<open>basicInfo.name\<close>.
\<close>

definition searchProduct ::
  "('w, 'd, 'e) platform \<Rightarrow> config \<Rightarrow> basicInfo \<Rightarrow> 'w \<Rightarrow> fuseOptions \<Rightarrow>
   ((error + jsval) \<times> 'w \<times> fuseOptions) option" where
  "searchProduct P cfg info w opts =
     (if truthyString (url info) then Some (Inr (Str (the (url info))), w, opts)
      else case name info of
        None \<Rightarrow> Some (Inl (InvalidType ''query''), w, opts)
      | Some nm \<Rightarrow>
          (case getOptimalForSearchSubstring P cfg nm w of
             (Inl e, w1) \<Rightarrow> Some (Inl e, w1, opts)
           | (Inr nameSubstr, w1) \<Rightarrow>
               (case iterateOverPagination P
                       \<lparr>pagination.url = fst (search (paginationUrls cfg)) @ nameSubstr @
                                          snd (search (paginationUrls cfg)),
                        first = None, last_page = None\<rparr>
                       (extractProductsBasicInfoFromList P cfg) w1 of
                  None \<Rightarrow> None
                | Some (Inl e, w2) \<Rightarrow> Some (Inl e, w2, opts)
                | Some (Inr basicInfoList, w2) \<Rightarrow>
                    if length basicInfoList = 0 then Some (Inl SearchEngineBroken, w2, opts)
                    else (case productNamesOf basicInfoList of
                            Inl e \<Rightarrow> Some (Inl e, w2, opts)
                          | Inr productNames \<Rightarrow>
                              (case fuseSearchProduct P opts info productNames
                                      (fuseOptionsBrand cfg) (fuseOptionsBrandless cfg) of
                                 (Inl e, opts') \<Rightarrow> Some (Inl e, w2, opts')
                               | (Inr m, opts') \<Rightarrow>
                                   if relevance m = 0 then Some (Inl NoCloseProduct, w2, opts')
                                   else if index m < length basicInfoList
                                   then (case getProp (basicInfoList ! index m) ''url'' of
                                           Inl e \<Rightarrow> Some (Inl e, w2, opts')
                                         | Inr v \<Rightarrow> Some (Inr v, w2, opts'))
                                   else Some (Inl TypeError, w2, opts'))))))"

section \<open>Vocabulary of the statements\<close>

text \<open>What one turn of the pagination loop sees of a page: the fetch failed, the
  callback threw, or the callback returned an array.\<close>

datatype pageOutcome = FetchFailed error | CallbackFailed error | Extracted "jsval list"

definition visitPage ::
  "('w, 'd, 'e) platform \<Rightarrow> ('d \<Rightarrow> error + jsval list) \<Rightarrow> string \<Rightarrow> int \<Rightarrow> 'w \<Rightarrow>
   pageOutcome \<times> 'w" where
  "visitPage P callback u pageNum w =
     (case fetchCheerioAPI P (u @ numberToString pageNum) w of
        (Inl e, w') \<Rightarrow> (FetchFailed e, w')
      | (Inr doc, w') \<Rightarrow>
          (case callback doc of
             Inl e \<Rightarrow> (CallbackFailed e, w')
           | Inr data \<Rightarrow> (Extracted data, w')))"

text \<open>The test of the loop on a page's data, \<open>acc.find(val => _.isEqual(val, data[0]))\<close>
  read as a condition.\<close>

definition pageReoccurs :: "jsval list \<Rightarrow> jsval list \<Rightarrow> bool" where
  "pageReoccurs acc data = truthy (jsFind (\<lambda>val. isEqual val (index0 data)) acc)"

text \<open>The loop condition \<open>last == undefined ? true : pageNum <= last\<close>.\<close>

definition withinLast :: "int option \<Rightarrow> int \<Rightarrow> bool" where
  "withinLast lst pageNum = (case lst of None \<Rightarrow> True | Some l \<Rightarrow> pageNum \<le> l)"

text \<open>The start page \<open>(first == undefined) ? 1 : first\<close>.\<close>

definition startPage :: "pagination \<Rightarrow> int" where
  "startPage pg = (case first pg of None \<Rightarrow> 1 | Some f \<Rightarrow> f)"

text \<open>A callback that returns strings, as a callback of the pagination engine.\<close>

definition asStrings :: "error + string list \<Rightarrow> error + jsval list" where
  "asStrings r = (case r of Inl e \<Rightarrow> Inl e | Inr ss \<Rightarrow> Inr (map Str ss))"

subsection \<open>The signals of the card filter\<close>

text \<open>The signals of the card at index \<open>i\<close>, in the spec's words: the extracted value
  differs from the placeholder, and the signal is false when the selector or the
  placeholder is not configured.\<close>

definition imagePresent :: "config \<Rightarrow> string list \<Rightarrow> nat \<Rightarrow> bool" where
  "imagePresent cfg imgUrls i =
     (if images (listSelectors cfg) = [] \<or> image_placeholder (placeholderValues cfg) = [] then False
      else imgUrls ! i \<noteq> image_placeholder (placeholderValues cfg))"

definition descriptionPresent :: "config \<Rightarrow> string list \<Rightarrow> nat \<Rightarrow> bool" where
  "descriptionPresent cfg descs i =
     (if descriptions (listSelectors cfg) = [] \<or> description (placeholderValues cfg) = [] then False
      else descs ! i \<noteq> description (placeholderValues cfg))"

definition imagesConfigured :: "config \<Rightarrow> bool" where
  "imagesConfigured cfg =
     (images (listSelectors cfg) \<noteq> [] \<and> image_placeholder (placeholderValues cfg) \<noteq> [])"

definition descriptionsConfigured :: "config \<Rightarrow> bool" where
  "descriptionsConfigured cfg =
     (descriptions (listSelectors cfg) \<noteq> [] \<and> description (placeholderValues cfg) \<noteq> [])"

subsection \<open>A test site\<close>

text \<open>
  A platform for running the model: \<open>pages\<close> maps a URL to the cards of its page
  (\<open>None\<close>: the fetch fails), a card being its text and the value of its attributes;
  every selector selects all the cards of the page. The world is the number of fetches
  issued so far.
\<close>

definition testSite ::
  "(string \<Rightarrow> (string \<times> string) list option) \<Rightarrow>
   (fuseOptions \<Rightarrow> string list \<Rightarrow> string \<Rightarrow> fuseResult list) \<Rightarrow>
   (nat, (string \<times> string) list, string \<times> string) platform" where
  "testSite pages engine =
     \<lparr> fetchLoad = (\<lambda>u n. (pages u, Suc n)),
       select = (\<lambda>doc sel. doc),
       elemText = fst,
       elemAttr = (\<lambda>el a. Some (snd el)),
       urlOrigin = Some,
       urlResolve = (\<lambda>u b. Some (b @ u)),
       toLowerCase = id,
       fuseSearch = engine \<rparr>"



text \<open>A site that serves the same page, whose first card has an empty name, for every
  page number.\<close>

definition emptyNameSite :: "(nat, (string \<times> string) list, string \<times> string) platform" where
  "emptyNameSite = testSite (\<lambda>u. Some [([], ''/a''), (''Alpha'', ''/b'')]) (\<lambda>opts nms q. [])"

definition emptyNameCards :: "(string \<times> string) list \<Rightarrow> error + jsval list" where
  "emptyNameCards doc = asStrings (extractTextContents emptyNameSite doc ''.name'')"

text \<open>A site that serves one card to the first fetch and pages without cards to every
  later one; \<open>cardTexts\<close> is a callback that never throws.\<close>

definition onePageSite :: "(nat, (string \<times> string) list, string \<times> string) platform" where
  "onePageSite =
     (testSite (\<lambda>u. None) (\<lambda>opts nms q. []))
       \<lparr>fetchLoad := (\<lambda>u n. (Some (if n = 0 then [(''Alpha'', ''/a'')] else []), Suc n))\<rparr>"

definition cardTexts :: "(string \<times> string) list \<Rightarrow> error + jsval list" where
  "cardTexts doc = Inr (map (\<lambda>card. Str (fst card)) doc)"

text \<open>A site where every fetch fails.\<close>

definition offlineSite :: "(nat, (string \<times> string) list, string \<times> string) platform" where
  "offlineSite = testSite (\<lambda>u. None) (\<lambda>opts nms q. [])"

text \<open>A configuration: the selectors, the placeholders, the two URL templates and the
  default thresholds.\<close>

definition shopConfig :: config where
  "shopConfig =
     \<lparr> baseUrl = [],
       brands = [],
       listSelectors = \<lparr>names = ''.name'', links = ''.link'', images = ''.img'',
                         descriptions = ''.text''\<rparr>,
       placeholderValues = \<lparr>image_placeholder = ''placeholder.png'', description = ''Lorem ipsum...''\<rparr>,
       paginationUrls = \<lparr>catalog = (''catalog?brand='', ''&page=''),
                          search = (''search?q='', ''&page='')\<rparr>,
       fuseOptionsBrand = \<lparr>firstScore = 19 / 100, firstScoreWarning = 11 / 100,
                            difference = 3 / 100\<rparr>,
       fuseOptionsBrandless = \<lparr>firstScore = 19 / 100, firstScoreWarning = 11 / 100,
                                difference = 3 / 100\<rparr> \<rparr>"

text \<open>A search engine that finds something for the queries of at least four characters
  (the URL is \<open>search?q=\<close> and the query), and one that finds something for the queries
  of at most three.\<close>

definition longQuerySite :: "(nat, (string \<times> string) list, string \<times> string) platform" where
  "longQuerySite =
     testSite (\<lambda>u. Some (if 13 \<le> length u then [(''Alpha'', ''/a'')] else [])) (\<lambda>opts nms q. [])"

definition shortQuerySite :: "(nat, (string \<times> string) list, string \<times> string) platform" where
  "shortQuerySite =
     testSite (\<lambda>u. Some (if length u \<le> 12 then [(''Alpha'', ''/a'')] else [])) (\<lambda>opts nms q. [])"

text \<open>A page of four cards: text (the description) and attribute value (the image URL)
  of each; the callback returns the four links.\<close>

definition fourCardSite :: "(nat, (string \<times> string) list, string \<times> string) platform" where
  "fourCardSite = testSite (\<lambda>u. None) (\<lambda>opts nms q. [])"

definition fourCards :: "(string \<times> string) list" where
  "fourCards =
     [(''The first product.'', ''first.png''),
      (''The second product.'', ''placeholder.png''),
      (''Lorem ipsum...'', ''third.png''),
      (''Lorem ipsum...'', ''placeholder.png'')]"

definition fourUrls :: "(string \<times> string) list \<Rightarrow> error + string list" where
  "fourUrls doc = Inr [''first-url'', ''second-url'', ''third-url'', ''fourth-url'']"

text \<open>
  A stand-in for Fuse.js: a name is a hit when the query is a prefix of it, hits come in
  the order of the list, and the score of a hit grows with \<open>fieldNormWeight\<close>, as
  Fuse.js's field-length norm makes the score of a name of several words grow.
\<close>

definition weightedPrefixFuse :: "fuseOptions \<Rightarrow> string list \<Rightarrow> string \<Rightarrow> fuseResult list" where
  "weightedPrefixFuse opts nms q =
     map (\<lambda>i. \<lparr>refIndex = i, score = 1 / 10 + fieldNormWeight opts / 10\<rparr>)
       (filter (\<lambda>i. prefix q (nms ! i)) [0..<length nms])"

definition fuseSite :: "(nat, (string \<times> string) list, string \<times> string) platform" where
  "fuseSite = testSite (\<lambda>u. None) weightedPrefixFuse"

definition defaultThresholds :: thresholds where
  "defaultThresholds = \<lparr>firstScore = 19 / 100, firstScoreWarning = 11 / 100, difference = 3 / 100\<rparr>"

section \<open>The pagination engine, verified\<close>

lemma paginationLoop_unfold:
  "paginationLoop P callback u s lst acc pageNum w =
     (if withinLast lst pageNum then
        (case visitPage P callback u pageNum w of
           (FetchFailed e, w') \<Rightarrow> Some (Inl e, w')
         | (CallbackFailed e, w') \<Rightarrow>
             if pageNum = s then Some (Inl e, w') else Some (Inr acc, w')
         | (Extracted data, w') \<Rightarrow>
             if pageReoccurs acc data then Some (Inr acc, w')
             else paginationLoop P callback u s lst (acc @ data) (pageNum + 1) w')
      else Some (Inr acc, w))"
  by (subst paginationLoop.simps)
     (simp add: visitPage_def pageReoccurs_def withinLast_def
           split: prod.splits sum.splits option.splits)

lemma withinLast_earlier: "withinLast lst q \<Longrightarrow> p \<le> q \<Longrightarrow> withinLast lst p"
  by (cases lst) (simp_all add: withinLast_def)

lemma paginationLoop_run:
  assumes "\<forall>k<n. withinLast lst (p + int k) \<and>
             visitPage P callback u (p + int k) (ws k) = (Extracted (ds k), ws (Suc k)) \<and>
             \<not> pageReoccurs (acc @ concat (map ds [0..<k])) (ds k)"
  shows "paginationLoop P callback u s lst acc p (ws 0) =
         paginationLoop P callback u s lst (acc @ concat (map ds [0..<n])) (p + int n) (ws n)"
  using assms
proof (induction n)
  case 0
  then show ?case by simp
next
  case (Suc n)
  from Suc.prems have step:
    "withinLast lst (p + int n)"
    "visitPage P callback u (p + int n) (ws n) = (Extracted (ds n), ws (Suc n))"
    "\<not> pageReoccurs (acc @ concat (map ds [0..<n])) (ds n)"
    by auto
  from Suc have "paginationLoop P callback u s lst acc p (ws 0) =
         paginationLoop P callback u s lst (acc @ concat (map ds [0..<n])) (p + int n) (ws n)"
    by simp
  also have "\<dots> = paginationLoop P callback u s lst ((acc @ concat (map ds [0..<n])) @ ds n)
                     (p + int n + 1) (ws (Suc n))"
    by (subst paginationLoop_unfold) (simp add: step)
  finally show ?case by (simp add: ac_simps)
qed

text \<open>Where every accumulated element is truthy (objects, strings that are not empty), the
  test of the loop is the membership test its comment describes, and a page that reoccurs
  ends the iteration with the pages before it.\<close>

lemma pageReoccurs_truthy:
  "list_ex (\<lambda>val. isEqual val (index0 data)) acc \<Longrightarrow> list_all truthy acc \<Longrightarrow>
   pageReoccurs acc data"
  unfolding pageReoccurs_def by (induction acc) auto

lemma iterateOverPagination_duplicate_stop:
  assumes "ws 0 = w"
    and "\<forall>k<n. visitPage P callback (pagination.url pg) (startPage pg + int k) (ws k) =
                 (Extracted (ds k), ws (Suc k)) \<and>
               \<not> pageReoccurs (concat (map ds [0..<k])) (ds k)"
    and "withinLast (last_page pg) (startPage pg + int n)"
    and "visitPage P callback (pagination.url pg) (startPage pg + int n) (ws n) = (Extracted d, w')"
    and "pageReoccurs (concat (map ds [0..<n])) d"
  shows "iterateOverPagination P pg callback w = Some (Inr (concat (map ds [0..<n])), w')"
proof -
  from assms(2,3) have "\<forall>k<n. withinLast (last_page pg) (startPage pg + int k) \<and>
      visitPage P callback (pagination.url pg) (startPage pg + int k) (ws k) =
        (Extracted (ds k), ws (Suc k)) \<and>
      \<not> pageReoccurs ([] @ concat (map ds [0..<k])) (ds k)"
    by (auto intro: withinLast_earlier)
  from paginationLoop_run [OF this, of "startPage pg"] assms(1)
  have "paginationLoop P callback (pagination.url pg) (startPage pg) (last_page pg) [] (startPage pg) w =
        paginationLoop P callback (pagination.url pg) (startPage pg) (last_page pg)
          (concat (map ds [0..<n])) (startPage pg + int n) (ws n)"
    by simp
  also have "\<dots> = Some (Inr (concat (map ds [0..<n])), w')"
    using assms(3,4,5) by (subst paginationLoop_unfold) simp
  finally show ?thesis
    unfolding iterateOverPagination_def Let_def startPage_def [symmetric] .
qed

text \<open>Unfolding the definitions on the test sites.\<close>

lemmas eval_simps = withinLast_def startPage_def visitPage_def fetchCheerioAPI_def testSite_def
        numberToString_def digits.simps asStrings_def extractTextContents_def pageReoccurs_def trim_def isSpace_def



text \<open>
  C4, at an input where the code departs from it. Every page number serves the same two
  names, the first of them the empty string. On page 2 the first element \<open>""\<close> is
  deeply equal to the accumulated \<open>""\<close>, but \<open>acc.find\<close> returns the element found, the
  falsy \<open>""\<close>, so the loop does not stop and appends page 2: the result has four
  elements, not the two of page 1.
\<close>

theorem iterateOverPagination_falsy_duplicate:
  "visitPage emptyNameSite emptyNameCards ''shop?page='' 1 0 = (Extracted [Str [], Str ''Alpha''], 1) \<and>
   visitPage emptyNameSite emptyNameCards ''shop?page='' 2 1 = (Extracted [Str [], Str ''Alpha''], 2) \<and>
   isEqual (Str []) (index0 [Str [], Str ''Alpha'']) \<and>
   iterateOverPagination emptyNameSite
       \<lparr>pagination.url = ''shop?page='', first = None, last_page = Some 2\<rparr> emptyNameCards 0 =
     Some (Inr [Str [], Str ''Alpha'', Str [], Str ''Alpha''], 2)"
  by (simp add: iterateOverPagination_def paginationLoop.simps eval_simps emptyNameSite_def emptyNameCards_def)

lemma isEqual_Undefined: "isEqual v Undefined \<Longrightarrow> v = Undefined"
  by (cases v) simp_all

lemma jsFind_Undefined: "jsFind (\<lambda>val. isEqual val Undefined) acc = Undefined"
  by (induction acc) (auto dest: isEqual_Undefined)

lemma pageReoccurs_empty: "\<not> pageReoccurs acc []"
  by (simp add: pageReoccurs_def jsFind_Undefined)

lemma jsFind_in: "jsFind p acc \<noteq> Undefined \<Longrightarrow> jsFind p acc \<in> set acc \<and> p (jsFind p acc)"
  by (induction acc) (auto split: if_splits)

lemma pageReoccurs_equal: "pageReoccurs acc data \<Longrightarrow> list_ex (\<lambda>val. isEqual val (index0 data)) acc"
proof -
  assume "pageReoccurs acc data"
  then have "jsFind (\<lambda>val. isEqual val (index0 data)) acc \<noteq> Undefined"
    by (auto simp: pageReoccurs_def)
  from jsFind_in [OF this] show ?thesis
    by (auto simp: list_ex_iff)
qed

lemma paginationLoop_some_contra:
  fixes P :: "('w, 'd, 'e) platform" and P' :: "('w, 'd, 'e) platform"
  assumes seq: "\<forall>k. visitPage P callback u (p + int k) (ws k) = (Extracted (ds k), ws (Suc k)) \<and>
             \<not> pageReoccurs (acc @ concat (map ds [0..<k])) (ds k)"
    and ret: "paginationLoop P' cb' u' s' lst' acc' p' w' = Some r'"
  shows "P' = P \<and> cb' = callback \<and> u' = u \<and> lst' = None \<longrightarrow>
          (\<forall>k. acc' = acc @ concat (map ds [0..<k]) \<and> p' = p + int k \<and> w' = ws k \<longrightarrow> False)"
proof (rule paginationLoop.raw_induct
    [where P = "\<lambda>P' cb' u' s' lst' acc' p' w' r'.
        P' = P \<and> cb' = callback \<and> u' = u \<and> lst' = None \<longrightarrow>
        (\<forall>k. acc' = acc @ concat (map ds [0..<k]) \<and> p' = p + int k \<and> w' = ws k \<longrightarrow> False)",
     OF _ ret])
  fix loop :: "('w, 'd, 'e) platform \<Rightarrow> ('d \<Rightarrow> error + jsval list) \<Rightarrow> string \<Rightarrow> int \<Rightarrow> int option \<Rightarrow>
      jsval list \<Rightarrow> int \<Rightarrow> 'w \<Rightarrow> ((error + jsval list) \<times> 'w) option"
  fix Pa cba ua sa lsta acca pa wa ra
  assume ih: "\<And>Pb cbb ub sb lstb accb pb wb rb.
      loop Pb cbb ub sb lstb accb pb wb = Some rb \<Longrightarrow>
      Pb = P \<and> cbb = callback \<and> ub = u \<and> lstb = None \<longrightarrow>
      (\<forall>k. accb = acc @ concat (map ds [0..<k]) \<and> pb = p + int k \<and> wb = ws k \<longrightarrow> False)"
  assume body: "(if (case lsta of None \<Rightarrow> True | Some l \<Rightarrow> pa \<le> l) then
        (case fetchCheerioAPI Pa (ua @ numberToString pa) wa of
           (Inl e, w') \<Rightarrow> Some (Inl e, w')
         | (Inr doc, w') \<Rightarrow>
             (case cba doc of
                Inl e \<Rightarrow>
                  if pa = sa then Some (Inl e, w') else Some (Inr acca, w')
              | Inr data \<Rightarrow>
                  if truthy (jsFind (\<lambda>val. isEqual val (index0 data)) acca)
                  then Some (Inr acca, w')
                  else loop Pa cba ua sa lsta (acca @ data) (pa + 1) w'))
      else Some (Inr acca, wa)) = Some ra"
  show "Pa = P \<and> cba = callback \<and> ua = u \<and> lsta = None \<longrightarrow>
      (\<forall>k. acca = acc @ concat (map ds [0..<k]) \<and> pa = p + int k \<and> wa = ws k \<longrightarrow> False)"
  proof (intro impI allI)
    fix k
    assume a: "Pa = P \<and> cba = callback \<and> ua = u \<and> lsta = None"
       and b: "acca = acc @ concat (map ds [0..<k]) \<and> pa = p + int k \<and> wa = ws k"
    from seq have v: "visitPage P callback u (p + int k) (ws k) = (Extracted (ds k), ws (Suc k))"
      and nr: "\<not> pageReoccurs (acc @ concat (map ds [0..<k])) (ds k)" by auto
    from v obtain doc where f: "fetchCheerioAPI P (u @ numberToString (p + int k)) (ws k) = (Inr doc, ws (Suc k))"
      and c: "callback doc = Inr (ds k)"
      by (auto simp: visitPage_def split: prod.splits sum.splits)
    from body a b f c nr
    have "loop P callback u sa None (acc @ concat (map ds [0..<Suc k])) (p + int (Suc k)) (ws (Suc k)) = Some ra"
      by (simp add: pageReoccurs_def ac_simps)
    from ih[OF this] show False
      by blast
  qed
qed

lemma paginationLoop_never_returns:
  assumes "\<forall>k. visitPage P callback u (p + int k) (ws k) = (Extracted (ds k), ws (Suc k)) \<and>
             \<not> pageReoccurs (acc @ concat (map ds [0..<k])) (ds k)"
  shows "paginationLoop P callback u s None acc p (ws 0) = None"
proof (cases "paginationLoop P callback u s None acc p (ws 0)")
  case None
  then show ?thesis .
next
  case (Some r)
  from paginationLoop_some_contra[OF assms Some] have False
    by (auto dest: spec[where x=0])
  then show ?thesis ..
qed

text \<open>
  C10, amended. With \<open>last\<close> absent, \<open>iterateOverPagination\<close> returns only if some
  page's fetch fails, or its callback fails, or its callback produces a result whose
  first element deeply equals an element accumulated before: when none of these ever
  happens on the pages \<open>startPage pg + k\<close>, the run never returns. And when, after \<open>m\<close>
  pages that were appended, every fetch succeeds and the callback returns an empty array
  on every later page, the run never returns.
\<close>

theorem iterateOverPagination_unbounded_termination:
  "(last_page pg = None \<and> ws 0 = w \<and>
    (\<forall>k. visitPage P callback (pagination.url pg) (startPage pg + int k) (ws k) =
            (Extracted (ds k), ws (Suc k)) \<and>
          \<not> list_ex (\<lambda>val. isEqual val (index0 (ds k))) (concat (map ds [0..<k])))
      \<longrightarrow> iterateOverPagination P pg callback w = None) \<and>
   (last_page pg = None \<and> ws 0 = w \<and>
    (\<forall>k<m. visitPage P callback (pagination.url pg) (startPage pg + int k) (ws k) =
              (Extracted (ds k), ws (Suc k)) \<and>
            \<not> pageReoccurs (concat (map ds [0..<k])) (ds k)) \<and>
    (\<forall>k\<ge>m. visitPage P callback (pagination.url pg) (startPage pg + int k) (ws k) =
              (Extracted [], ws (Suc k)))
      \<longrightarrow> iterateOverPagination P pg callback w = None)"
proof (intro conjI impI)
  assume a: "last_page pg = None \<and> ws 0 = w \<and>
    (\<forall>k. visitPage P callback (pagination.url pg) (startPage pg + int k) (ws k) =
            (Extracted (ds k), ws (Suc k)) \<and>
          \<not> list_ex (\<lambda>val. isEqual val (index0 (ds k))) (concat (map ds [0..<k])))"
  then have "\<forall>k. visitPage P callback (pagination.url pg) (startPage pg + int k) (ws k) =
            (Extracted (ds k), ws (Suc k)) \<and>
          \<not> pageReoccurs ([] @ concat (map ds [0..<k])) (ds k)"
    using pageReoccurs_equal by auto
  from paginationLoop_never_returns [OF this, of "startPage pg"] a
  show "iterateOverPagination P pg callback w = None"
    by (simp add: iterateOverPagination_def startPage_def)
next
  assume a: "last_page pg = None \<and> ws 0 = w \<and>
    (\<forall>k<m. visitPage P callback (pagination.url pg) (startPage pg + int k) (ws k) =
              (Extracted (ds k), ws (Suc k)) \<and>
            \<not> pageReoccurs (concat (map ds [0..<k])) (ds k)) \<and>
    (\<forall>k\<ge>m. visitPage P callback (pagination.url pg) (startPage pg + int k) (ws k) =
              (Extracted [], ws (Suc k)))"
  define ds' where "ds' = (\<lambda>k. if k < m then ds k else [])"
  have pre: "concat (map ds' [0..<k]) = concat (map ds [0..<k])" if "k \<le> m" for k
    using that by (intro arg_cong [where f = concat] map_cong) (auto simp: ds'_def)
  have "\<forall>k. visitPage P callback (pagination.url pg) (startPage pg + int k) (ws k) =
            (Extracted (ds' k), ws (Suc k)) \<and>
          \<not> pageReoccurs ([] @ concat (map ds' [0..<k])) (ds' k)"
  proof
    fix k
    show "visitPage P callback (pagination.url pg) (startPage pg + int k) (ws k) =
            (Extracted (ds' k), ws (Suc k)) \<and>
          \<not> pageReoccurs ([] @ concat (map ds' [0..<k])) (ds' k)"
    proof (cases "k < m")
      case True
      with a pre [of k] show ?thesis by (simp add: ds'_def)
    next
      case False
      with a show ?thesis by (simp add: ds'_def pageReoccurs_empty)
    qed
  qed
  from paginationLoop_never_returns [OF this, of "startPage pg"] a
  show "iterateOverPagination P pg callback w = None"
    by (simp add: iterateOverPagination_def startPage_def)
qed

theorem iterateOverPagination_unbounded_termination_witness:
  "iterateOverPagination onePageSite
      \<lparr>pagination.url = ''shop?page='', first = None, last_page = None\<rparr> cardTexts 0 = None"
proof -
  have later: "visitPage onePageSite cardTexts u p k = (Extracted [], Suc k)"
    if "1 \<le> k" for u p k
    using that
    by (simp add: visitPage_def fetchCheerioAPI_def onePageSite_def testSite_def cardTexts_def)
  have h: "last_page \<lparr>pagination.url = ''shop?page='', first = None, last_page = None\<rparr> = None \<and>
    (\<lambda>k. k) 0 = (0::nat) \<and>
    (\<forall>k<1. visitPage onePageSite cardTexts
            (pagination.url \<lparr>pagination.url = ''shop?page='', first = None, last_page = None\<rparr>)
            (startPage \<lparr>pagination.url = ''shop?page='', first = None, last_page = None\<rparr> + int k)
            ((\<lambda>k. k) k) =
            (Extracted ((\<lambda>k. [Str ''Alpha'']) k), (\<lambda>k. k) (Suc k)) \<and>
          \<not> pageReoccurs (concat (map (\<lambda>k. [Str ''Alpha'']) [0..<k])) ((\<lambda>k. [Str ''Alpha'']) k)) \<and>
    (\<forall>k\<ge>1. visitPage onePageSite cardTexts
            (pagination.url \<lparr>pagination.url = ''shop?page='', first = None, last_page = None\<rparr>)
            (startPage \<lparr>pagination.url = ''shop?page='', first = None, last_page = None\<rparr> + int k)
            ((\<lambda>k. k) k) =
            (Extracted [], (\<lambda>k. k) (Suc k)))"
    by (simp add: later) (simp add: eval_simps onePageSite_def cardTexts_def)
  from iterateOverPagination_unbounded_termination
     [where pg = "\<lparr>pagination.url = ''shop?page='', first = None, last_page = None\<rparr>"
        and P = onePageSite and callback = cardTexts and w = 0 and ws = "\<lambda>k. k"
        and ds = "\<lambda>k. [Str ''Alpha'']" and m = 1,
      THEN conjunct2, rule_format, OF h]
  show ?thesis .
qed

text \<open>
  C10 as stated fails where a fetch fails: the callback below never throws and returns
  no first element, \<open>last\<close> is absent, and the run ends at the first fetch.
\<close>

theorem iterateOverPagination_fetch_failure_terminates:
  "iterateOverPagination offlineSite \<lparr>pagination.url = ''shop?page='', first = None, last_page = None\<rparr>
      cardTexts 0 = Some (Inl (Unavailable ''shop?page=1''), 1)"
  by (simp add: iterateOverPagination_def paginationLoop.simps eval_simps offlineSite_def)

section \<open>Query narrowing, verified\<close>

text \<open>The invariant of the loop: the prefix of length \<open>left + 1\<close> has results (or is the
  untested prefix of length 2) and no prefix longer than \<open>right\<close> has.\<close>

lemma narrowLoop_cut:
  "\<forall>k w. k \<le> length q \<longrightarrow> fst (probe (take k q) w) = Inr (k \<le> L) \<Longrightarrow>
   1 \<le> left \<Longrightarrow> left + 1 \<le> int L \<Longrightarrow> int L \<le> right \<Longrightarrow> right \<le> int (length q) \<Longrightarrow>
   left < right \<Longrightarrow> fst (narrowLoop probe q left right w) = Inr (take L q)"
proof (induction probe q left right w rule: narrowLoop.induct)
  case (1 probe q left right w)
  note probe = "1.prems"(1)
  show ?case
  proof (cases "right - left > 1")
    case False
    with 1 have "nat (left + 1) = L" by simp
    with False show ?thesis by (simp add: narrowLoop.simps)
  next
    case True
    define middle where "middle = (left + right) div 2"
    define substr where "substr = take (nat (middle + 1)) q"
    from True have m: "left < middle" "middle < right" by (simp_all add: middle_def)
    with "1.prems" have len: "nat (middle + 1) \<le> length q" by simp
    obtain r w' where pr: "probe substr w = (r, w')" by (cases "probe substr w")
    from probe len have "fst (probe substr w) = Inr (nat (middle + 1) \<le> L)"
      unfolding substr_def by blast
    with pr have r: "r = Inr (nat (middle + 1) \<le> L)" by simp
    show ?thesis
    proof (cases "nat (middle + 1) \<le> L")
      case yes: True
      have "fst (narrowLoop probe q middle right w') = Inr (take L q)"
      proof (rule "1.IH"(1) [OF True middle_def substr_def pr [symmetric] r])
        show "nat (middle + 1) \<le> L" by (rule yes)
        show "\<forall>k w. k \<le> length q \<longrightarrow> fst (probe (take k q) w) = Inr (k \<le> L)" by (rule probe)
        from m "1.prems" show "1 \<le> middle" by simp
        from yes m "1.prems" show "middle + 1 \<le> int L" by simp
        from "1.prems" show "int L \<le> right" by simp
        from "1.prems" show "right \<le> int (length q)" by simp
        from m show "middle < right" by simp
      qed
      with True pr r yes show ?thesis
        by (subst narrowLoop.simps) (simp add: Let_def middle_def [symmetric] substr_def [symmetric])
    next
      case no: False
      have "fst (narrowLoop probe q left middle w') = Inr (take L q)"
      proof (rule "1.IH"(2) [OF True middle_def substr_def pr [symmetric] r])
        show "\<not> nat (middle + 1) \<le> L" by (rule no)
        show "\<forall>k w. k \<le> length q \<longrightarrow> fst (probe (take k q) w) = Inr (k \<le> L)" by (rule probe)
        from "1.prems" show "1 \<le> left" by simp
        from "1.prems" show "left + 1 \<le> int L" by simp
        from no m "1.prems" show "int L \<le> middle" by simp
        from m "1.prems" show "middle \<le> int (length q)" by simp
        from m show "left < middle" by simp
      qed
      with True pr r no show ?thesis
        by (subst narrowLoop.simps) (simp add: Let_def middle_def [symmetric] substr_def [symmetric])
    qed
  qed
qed

lemma hasSearchResult_longQuerySite:
  "hasSearchResult longQuerySite shopConfig s w = (Inr (4 \<le> length s), Suc w)"
  by (simp add: hasSearchResult_def fetchCheerioAPI_def longQuerySite_def testSite_def
        shopConfig_def anyListSelector_def)

lemma hasSearchResult_shortQuerySite:
  "hasSearchResult shortQuerySite shopConfig s w = (Inr (length s \<le> 3), Suc w)"
  by (simp add: hasSearchResult_def fetchCheerioAPI_def shortQuerySite_def testSite_def
        shopConfig_def anyListSelector_def)

text \<open>
  C2. If exactly the prefixes of length at most \<open>L\<close> yield results, with
  \<open>2 \<le> L < length q\<close> (so the full query yields none), the function returns the prefix
  of length \<open>L\<close>; and if the full query yields results it is returned unchanged, after
  that one probe.
\<close>

theorem getOptimalForSearchSubstring_largest_prefix:
  "(2 \<le> L \<and> L < length q \<and>
    (\<forall>k w. k \<le> length q \<longrightarrow> fst (hasSearchResult P cfg (take k q) w) = Inr (k \<le> L))
      \<longrightarrow> fst (getOptimalForSearchSubstring P cfg q w) = Inr (take L q)) \<and>
   (fst (hasSearchResult P cfg q w) = Inr True
      \<longrightarrow> getOptimalForSearchSubstring P cfg q w = (Inr q, snd (hasSearchResult P cfg q w)))"
proof (intro conjI impI)
  assume a: "2 \<le> L \<and> L < length q \<and>
    (\<forall>k w. k \<le> length q \<longrightarrow> fst (hasSearchResult P cfg (take k q) w) = Inr (k \<le> L))"
  then have "fst (hasSearchResult P cfg (take (length q) q) w) = Inr (length q \<le> L)"
    by blast
  with a obtain w' where full: "hasSearchResult P cfg q w = (Inr False, w')"
    by (cases "hasSearchResult P cfg q w") simp
  from a have "fst (narrowLoop (hasSearchResult P cfg) q 1 (int (length q)) w') = Inr (take L q)"
    by (intro narrowLoop_cut) simp_all
  with full show "fst (getOptimalForSearchSubstring P cfg q w) = Inr (take L q)"
    by (simp add: getOptimalForSearchSubstring_def)
next
  assume "fst (hasSearchResult P cfg q w) = Inr True"
  then show "getOptimalForSearchSubstring P cfg q w = (Inr q, snd (hasSearchResult P cfg q w))"
    by (cases "hasSearchResult P cfg q w") (simp add: getOptimalForSearchSubstring_def)
qed

theorem getOptimalForSearchSubstring_largest_prefix_witness:
  "fst (getOptimalForSearchSubstring shortQuerySite shopConfig ''abcdef'' 0) = Inr ''abc'' \<and>
   getOptimalForSearchSubstring longQuerySite shopConfig ''abcdef'' 0 = (Inr ''abcdef'', 1)"
proof -
  have one: "2 \<le> (3::nat) \<and> 3 < length ''abcdef'' \<and>
    (\<forall>k w. k \<le> length ''abcdef'' \<longrightarrow>
       fst (hasSearchResult shortQuerySite shopConfig (take k ''abcdef'') w) = Inr (k \<le> 3))"
    by (simp add: hasSearchResult_shortQuerySite)
  have two: "fst (hasSearchResult longQuerySite shopConfig ''abcdef'' 0) = Inr True"
    by (simp add: hasSearchResult_longQuerySite)
  from getOptimalForSearchSubstring_largest_prefix
         [where L = 3 and q = "''abcdef''" and P = shortQuerySite and cfg = shopConfig and w = 0,
          THEN conjunct1, rule_format, OF one]
       getOptimalForSearchSubstring_largest_prefix
         [where q = "''abcdef''" and P = longQuerySite and cfg = shopConfig and w = 0,
          THEN conjunct2, rule_format, OF two]
  show ?thesis by (simp add: hasSearchResult_longQuerySite)
qed

text \<open>
  C1, amended. For the query \<open>"abcdef"\<close>, if exactly the prefixes of length at least 4
  yield results, the function returns the full query \<open>"abcdef"\<close>: the full query is
  probed first and has results.
\<close>

theorem getOptimalForSearchSubstring_abcdef:
  "(\<forall>k w. k \<le> 6 \<longrightarrow> fst (hasSearchResult P cfg (take k ''abcdef'') w) = Inr (4 \<le> k)) \<Longrightarrow>
   fst (getOptimalForSearchSubstring P cfg ''abcdef'' w) = Inr ''abcdef''"
proof -
  assume "\<forall>k w. k \<le> 6 \<longrightarrow> fst (hasSearchResult P cfg (take k ''abcdef'') w) = Inr (4 \<le> k)"
  then have "fst (hasSearchResult P cfg (take 6 ''abcdef'') w) = Inr (4 \<le> (6::nat))"
    by blast
  then show ?thesis
    by (cases "hasSearchResult P cfg ''abcdef'' w") (simp add: getOptimalForSearchSubstring_def)
qed

theorem getOptimalForSearchSubstring_abcdef_witness:
  "fst (getOptimalForSearchSubstring longQuerySite shopConfig ''abcdef'' 7) = Inr ''abcdef''"
proof -
  have "\<forall>k w. k \<le> 6 \<longrightarrow>
      fst (hasSearchResult longQuerySite shopConfig (take k ''abcdef'') w) = Inr (4 \<le> k)"
    by (simp add: hasSearchResult_longQuerySite)
  from getOptimalForSearchSubstring_abcdef [OF this] show ?thesis .
qed

text \<open>
  C1 as stated fails: on a search engine that finds something exactly for the queries of
  at least four characters, the result for \<open>"abcdef"\<close> is \<open>"abcdef"\<close>, not \<open>"abcd"\<close>.
\<close>

theorem getOptimalForSearchSubstring_not_shortest:
  "hasSearchResult longQuerySite shopConfig [] 0 = (Inr False, 1) \<and>
   hasSearchResult longQuerySite shopConfig ''a'' 0 = (Inr False, 1) \<and>
   hasSearchResult longQuerySite shopConfig ''ab'' 0 = (Inr False, 1) \<and>
   hasSearchResult longQuerySite shopConfig ''abc'' 0 = (Inr False, 1) \<and>
   hasSearchResult longQuerySite shopConfig ''abcd'' 0 = (Inr True, 1) \<and>
   hasSearchResult longQuerySite shopConfig ''abcde'' 0 = (Inr True, 1) \<and>
   hasSearchResult longQuerySite shopConfig ''abcdef'' 0 = (Inr True, 1) \<and>
   getOptimalForSearchSubstring longQuerySite shopConfig ''abcdef'' 0 = (Inr ''abcdef'', 1) \<and>
   fst (getOptimalForSearchSubstring longQuerySite shopConfig ''abcdef'' 0) \<noteq> Inr ''abcd''"
  by (simp add: hasSearchResult_longQuerySite getOptimalForSearchSubstring_def)

section \<open>Card filtering, verified\<close>

lemma markExisting_prefix:
  "k \<le> length vals \<Longrightarrow> length ex = length vals \<Longrightarrow>
   foldl (\<lambda>ex i. ex[i := (vals ! i \<noteq> ph)]) ex [0..<k] =
     map (\<lambda>v. v \<noteq> ph) (take k vals) @ drop k ex"
proof (induction k)
  case 0
  then show ?case by simp
next
  case (Suc k)
  then have "foldl (\<lambda>ex i. ex[i := (vals ! i \<noteq> ph)]) ex [0..<Suc k] =
      (map (\<lambda>v. v \<noteq> ph) (take k vals) @ drop k ex)[k := (vals ! k \<noteq> ph)]"
    by simp
  also from Suc.prems have "\<dots> = map (\<lambda>v. v \<noteq> ph) (take k vals) @ (drop k ex)[0 := (vals ! k \<noteq> ph)]"
    by (simp add: list_update_append)
  also from Suc.prems have "(drop k ex)[0 := (vals ! k \<noteq> ph)] = (vals ! k \<noteq> ph) # drop (Suc k) ex"
    by (cases "drop k ex") (auto simp: drop_Suc tl_drop [symmetric] simp del: tl_drop)
  also from Suc.prems have "map (\<lambda>v. v \<noteq> ph) (take k vals) @ (vals ! k \<noteq> ph) # drop (Suc k) ex =
      map (\<lambda>v. v \<noteq> ph) (take (Suc k) vals) @ drop (Suc k) ex"
    by (simp add: take_Suc_conv_app_nth)
  finally show ?case .
qed

lemma markExisting_map:
  "length ex = length vals \<Longrightarrow> markExisting vals ph ex = map (\<lambda>v. v \<noteq> ph) vals"
  using markExisting_prefix [of "length vals" vals ex ph] by (simp add: markExisting_def)

lemma filter_by_index:
  "map fst (filter (\<lambda>(card, i). Q i) (zip data [0..<length data])) =
   map ((!) data) (filter Q [0..<length data])"
proof (induction data rule: rev_induct)
  case Nil
  then show ?case by simp
next
  case (snoc x xs)
  have "map ((!) (xs @ [x])) (filter Q [0..<length xs]) = map ((!) xs) (filter Q [0..<length xs])"
    by (rule map_cong) (auto simp: nth_append)
  with snoc show ?case by simp
qed

text \<open>
  C9. When the callback returns \<open>data\<close> and each configured extraction (images,
  descriptions) returns as many values as there are cards, the result is the cards at the
  indices whose signals satisfy the predicate, in their order; the signal of an image is
  that its URL differs from the placeholder, and is false when the selector or the
  placeholder is not configured; the same for descriptions.
\<close>

theorem filterProductCardsFromPage_exact:
  "callback doc = Inr data \<and>
   (imagesConfigured cfg \<longrightarrow>
      extractProductImageUrlsFromList P cfg doc = Inr imgUrls \<and> length imgUrls = length data) \<and>
   (descriptionsConfigured cfg \<longrightarrow>
      extractProductDescriptionsFromList P cfg doc = Inr descs \<and> length descs = length data)
   \<longrightarrow>
   filterProductCardsFromPage P cfg doc callback filterFunction =
     Inr (map ((!) data)
            (filter (\<lambda>i. filterFunction (imagePresent cfg imgUrls i) (descriptionPresent cfg descs i))
               [0..<length data]))"
proof
  assume a: "callback doc = Inr data \<and>
   (imagesConfigured cfg \<longrightarrow>
      extractProductImageUrlsFromList P cfg doc = Inr imgUrls \<and> length imgUrls = length data) \<and>
   (descriptionsConfigured cfg \<longrightarrow>
      extractProductDescriptionsFromList P cfg doc = Inr descs \<and> length descs = length data)"
  define imgExist where "imgExist = map (imagePresent cfg imgUrls) [0..<length data]"
  define desExist where "desExist = map (descriptionPresent cfg descs) [0..<length data]"
  have img: "(if images (listSelectors cfg) \<noteq> [] \<and> image_placeholder (placeholderValues cfg) \<noteq> []
                 then (case extractProductImageUrlsFromList P cfg doc of
                         Inl e \<Rightarrow> Inl e
                       | Inr imgUrls \<Rightarrow>
                           if length imgUrls \<noteq> length data then Inl ImagesCardsMismatch
                           else Inr (markExisting imgUrls (image_placeholder (placeholderValues cfg))
                                       (replicate (length data) False)))
                 else Inr (replicate (length data) False)) = Inr imgExist"
  proof (cases "imagesConfigured cfg")
    case True
    with a have "extractProductImageUrlsFromList P cfg doc = Inr imgUrls" "length imgUrls = length data"
      by simp_all
    moreover from this True have "map (\<lambda>v. v \<noteq> image_placeholder (placeholderValues cfg)) imgUrls = imgExist"
      by (auto simp: imgExist_def imagePresent_def imagesConfigured_def intro: nth_equalityI)
    ultimately show ?thesis
      using True by (simp add: imagesConfigured_def markExisting_map)
  next
    case False
    then have "replicate (length data) False = imgExist"
      by (auto simp: imgExist_def imagePresent_def imagesConfigured_def intro: nth_equalityI)
    with False show ?thesis by (auto simp: imagesConfigured_def)
  qed
  have des: "(if descriptions (listSelectors cfg) \<noteq> [] \<and>
                         description (placeholderValues cfg) \<noteq> []
                      then (case extractProductDescriptionsFromList P cfg doc of
                              Inl e \<Rightarrow> Inl e
                            | Inr descs \<Rightarrow>
                                if length descs \<noteq> length data
                                then Inl DescriptionsCardsMismatch
                                else Inr (markExisting descs (description (placeholderValues cfg))
                                            (replicate (length data) False)))
                      else Inr (replicate (length data) False)) = Inr desExist"
  proof (cases "descriptionsConfigured cfg")
    case True
    with a have "extractProductDescriptionsFromList P cfg doc = Inr descs" "length descs = length data"
      by simp_all
    moreover from this True have "map (\<lambda>v. v \<noteq> description (placeholderValues cfg)) descs = desExist"
      by (auto simp: desExist_def descriptionPresent_def descriptionsConfigured_def intro: nth_equalityI)
    ultimately show ?thesis
      using True by (simp add: descriptionsConfigured_def markExisting_map)
  next
    case False
    then have "replicate (length data) False = desExist"
      by (auto simp: desExist_def descriptionPresent_def descriptionsConfigured_def intro: nth_equalityI)
    with False show ?thesis by (auto simp: descriptionsConfigured_def)
  qed
  have sel: "filter (\<lambda>i. filterFunction (imgExist ! i) (desExist ! i)) [0..<length data] =
      filter (\<lambda>i. filterFunction (imagePresent cfg imgUrls i) (descriptionPresent cfg descs i))
        [0..<length data]"
    by (rule filter_cong) (auto simp: imgExist_def desExist_def)
  from a have "filterProductCardsFromPage P cfg doc callback filterFunction =
      Inr (map fst (filter (\<lambda>(card, i). filterFunction (imgExist ! i) (desExist ! i))
                     (zip data [0..<length data])))"
    unfolding filterProductCardsFromPage_def by (simp only: img des sum.case)
  then show "filterProductCardsFromPage P cfg doc callback filterFunction =
     Inr (map ((!) data)
            (filter (\<lambda>i. filterFunction (imagePresent cfg imgUrls i) (descriptionPresent cfg descs i))
               [0..<length data]))"
    by (simp only: filter_by_index sel)
qed

theorem filterProductCardsFromPage_exact_witness:
  "filterProductCardsFromPage fourCardSite shopConfig fourCards fourUrls (\<lambda>x y. \<not> x \<and> \<not> y) =
     Inr [''fourth-url''] \<and>
   filterProductCardsFromPage fourCardSite shopConfig fourCards fourUrls (\<lambda>x y. \<not> x) =
     Inr [''second-url'', ''fourth-url'']"
proof -
  have h: "fourUrls fourCards = Inr [''first-url'', ''second-url'', ''third-url'', ''fourth-url''] \<and>
   (imagesConfigured shopConfig \<longrightarrow>
      extractProductImageUrlsFromList fourCardSite shopConfig fourCards =
         Inr [''first.png'', ''placeholder.png'', ''third.png'', ''placeholder.png''] \<and>
      length [''first.png'', ''placeholder.png'', ''third.png'', ''placeholder.png''] =
      length [''first-url'', ''second-url'', ''third-url'', ''fourth-url'']) \<and>
   (descriptionsConfigured shopConfig \<longrightarrow>
      extractProductDescriptionsFromList fourCardSite shopConfig fourCards =
         Inr [''The first product.'', ''The second product.'', ''Lorem ipsum...'', ''Lorem ipsum...''] \<and>
      length [''The first product.'', ''The second product.'', ''Lorem ipsum...'', ''Lorem ipsum...''] =
      length [''first-url'', ''second-url'', ''third-url'', ''fourth-url''])"
    by (simp add: fourUrls_def fourCards_def fourCardSite_def testSite_def shopConfig_def
          extractProductImageUrlsFromList_def extractUrls_def extractAttrValues_def
          extractProductDescriptionsFromList_def extractTextContents_def trim_def isSpace_def)
  have u: "[0..<4] = [0, 1, 2, Suc 2]"
    by (simp add: upt_rec numeral_eq_Suc)
  from filterProductCardsFromPage_exact
         [where callback = fourUrls and doc = fourCards and cfg = shopConfig and P = fourCardSite
            and filterFunction = "\<lambda>x y. \<not> x \<and> \<not> y", rule_format, OF h]
       filterProductCardsFromPage_exact
         [where callback = fourUrls and doc = fourCards and cfg = shopConfig and P = fourCardSite
            and filterFunction = "\<lambda>x y. \<not> x", rule_format, OF h]
  show ?thesis
    by (simp add: u imagePresent_def descriptionPresent_def shopConfig_def)
qed

section \<open>Product search, verified\<close>

text \<open>
  C8, amended. For every \<open>basicInfo\<close> whose \<open>url\<close> is a string that is not empty,
  \<open>searchProduct\<close> returns that URL, whatever the name and the brand, and leaves the
  world as it was: no fetch is issued.
\<close>

theorem searchProduct_url_short_circuit:
  "u \<noteq> [] \<Longrightarrow>
   searchProduct P cfg \<lparr>name = nm, brand = br, url = Some u\<rparr> w opts = Some (Inr (Str u), w, opts)"
  by (simp add: searchProduct_def truthyString_def)

theorem searchProduct_url_short_circuit_witness:
  "searchProduct offlineSite shopConfig \<lparr>name = Some ''X'', brand = None, url = Some ''http://known''\<rparr>
      0 FUSE_DEFAULT_OPTIONS = Some (Inr (Str ''http://known''), 0, FUSE_DEFAULT_OPTIONS)"
  using searchProduct_url_short_circuit
          [of "''http://known''" offlineSite shopConfig "Some ''X''" None 0 FUSE_DEFAULT_OPTIONS]
  by simp

text \<open>
  C8 as stated fails where the \<open>url\<close> field is present and empty: \<open>if (basicInfo.url)\<close>
  is false, the search by name starts and issues a fetch.
\<close>

theorem searchProduct_empty_url_searches:
  "searchProduct offlineSite shopConfig \<lparr>name = Some ''X'', brand = None, url = Some []\<rparr>
      0 FUSE_DEFAULT_OPTIONS =
     Some (Inl (Unavailable ''search?q=X''), 1, FUSE_DEFAULT_OPTIONS)"
  by (simp add: searchProduct_def truthyString_def getOptimalForSearchSubstring_def
        hasSearchResult_def fetchCheerioAPI_def offlineSite_def testSite_def shopConfig_def)

section \<open>Fuzzy matching, verified\<close>

text \<open>
  C7. If \<open>basicInfo.brand\<close> is absent (or empty), or the search by name and brand has no
  hit, the search is run by the normalized name alone: with no hit there the function
  fails with \<open>FuseCannotFind\<close>; otherwise the result is that of the name-only hits
  ranked against the brandless thresholds, and the relevance returned is their
  classification of those hits.
\<close>

theorem fuseSearchProduct_brandless_fallback:
  "name info = Some rawName \<and> nm = normalize_name rawName \<and> nms = map normalize_name productNames \<and>
   (\<not> truthyString (brand info) \<or>
    fuseSearch P opts nms (brandQuery nm (normalize_name (the (brand info)))) = [])
   \<longrightarrow>
   (fuseSearch P opts nms nm = [] \<longrightarrow>
      fuseSearchProduct P opts info productNames optionsBrand optionsBrandless =
        (Inl (FuseCannotFind rawName), opts)) \<and>
   (fuseSearch P opts nms nm \<noteq> [] \<longrightarrow>
      fuseSearchProduct P opts info productNames optionsBrand optionsBrandless =
        rankFirst P opts nms nm (fuseSearch P opts nms nm) optionsBrandless) \<and>
   (\<forall>m. fst (fuseSearchProduct P opts info productNames optionsBrand optionsBrandless) = Inr m \<longrightarrow>
      assessRelevance (fuseSearch P opts nms nm) optionsBrandless = Inr (relevance m))"
proof (intro impI)
  assume a: "name info = Some rawName \<and> nm = normalize_name rawName \<and> nms = map normalize_name productNames \<and>
   (\<not> truthyString (brand info) \<or>
    fuseSearch P opts nms (brandQuery nm (normalize_name (the (brand info)))) = [])"
  then have f: "fuseSearchProduct P opts info productNames optionsBrand optionsBrandless =
      (if fuseSearch P opts nms nm = [] then (Inl (FuseCannotFind rawName), opts)
       else rankFirst P opts nms nm (fuseSearch P opts nms nm) optionsBrandless)"
    by (auto simp: fuseSearchProduct_def Let_def)
  have r: "assessRelevance res th = Inr (relevance m)"
    if "fst (rankFirst P opts nms q res th) = Inr m" for q res th m
    using that
    by (cases "assessRelevance res th")
       (auto simp: rankFirst_def Let_def split: list.splits if_splits)
  from f r show "(fuseSearch P opts nms nm = [] \<longrightarrow>
      fuseSearchProduct P opts info productNames optionsBrand optionsBrandless =
        (Inl (FuseCannotFind rawName), opts)) \<and>
   (fuseSearch P opts nms nm \<noteq> [] \<longrightarrow>
      fuseSearchProduct P opts info productNames optionsBrand optionsBrandless =
        rankFirst P opts nms nm (fuseSearch P opts nms nm) optionsBrandless) \<and>
   (\<forall>m. fst (fuseSearchProduct P opts info productNames optionsBrand optionsBrandless) = Inr m \<longrightarrow>
      assessRelevance (fuseSearch P opts nms nm) optionsBrandless = Inr (relevance m))"
    by (auto split: if_splits)
qed

lemma normalize_name_examples:
  "normalize_name ''Foo'' = ''Foo''"
  "normalize_name ''Bar'' = ''Bar''"
  "normalize_name ''Quux'' = ''Quux''"
  "normalize_name ''Foo-Bar'' = ''FooBar''"
  "normalize_name ''Foo Bar'' = ''Foo Bar''"
  "normalize_name ''Foo Baz'' = ''Foo Baz''"
  by (simp_all add: normalize_name_def isPunctuation_def isSeparator_def isSpace_def)

lemma fuseSite_search:
  "fuseSearch fuseSite opts [''Foo Bar'', ''Foo Baz''] ''Foo'' =
     [\<lparr>refIndex = 0, score = 1 / 10 + fieldNormWeight opts / 10\<rparr>,
      \<lparr>refIndex = 1, score = 1 / 10 + fieldNormWeight opts / 10\<rparr>]"
  "fuseSearch fuseSite opts [''FooBar'', ''Foo Baz''] ''Foo'' =
     [\<lparr>refIndex = 0, score = 1 / 10 + fieldNormWeight opts / 10\<rparr>,
      \<lparr>refIndex = 1, score = 1 / 10 + fieldNormWeight opts / 10\<rparr>]"
  "fuseSearch fuseSite opts [''Foo Bar''] ''Foo'' =
     [\<lparr>refIndex = 0, score = 1 / 10 + fieldNormWeight opts / 10\<rparr>]"
  "fuseSearch fuseSite opts [''Quux''] ''Foo'' = []"
  "fuseSearch fuseSite opts [''Quux''] (brandQuery ''Foo'' ''Bar'') = []"
  "fuseSearch fuseSite opts [''FooBar'', ''Foo Baz''] (brandQuery ''Foo'' ''Bar'') = []"
  by (simp_all add: fuseSite_def testSite_def weightedPrefixFuse_def upt_conv_Cons
        brandQuery_def replaceEverySpace_def isSpace_def)

theorem fuseSearchProduct_brandless_fallback_witness:
  "fuseSearchProduct fuseSite FUSE_DEFAULT_OPTIONS
      \<lparr>name = Some ''Foo'', brand = Some ''Bar'', url = None\<rparr>
      [''Quux''] defaultThresholds defaultThresholds =
     (Inl (FuseCannotFind ''Foo''), FUSE_DEFAULT_OPTIONS) \<and>
   fuseSearchProduct fuseSite FUSE_DEFAULT_OPTIONS
      \<lparr>name = Some ''Foo'', brand = Some ''Bar'', url = None\<rparr>
      [''Foo-Bar'', ''Foo Baz''] defaultThresholds
      \<lparr>firstScore = 19 / 100, firstScoreWarning = 5 / 100, difference = 3 / 100\<rparr> =
     (Inr \<lparr>index = 0, relevance = 1\<rparr>, FUSE_DEFAULT_OPTIONS)"
proof -
  have h1: "name \<lparr>name = Some ''Foo'', brand = Some ''Bar'', url = None\<rparr> = Some ''Foo'' \<and>
     ''Foo'' = normalize_name ''Foo'' \<and> [''Quux''] = map normalize_name [''Quux''] \<and>
     (\<not> truthyString (brand \<lparr>name = Some ''Foo'', brand = Some ''Bar'', url = None\<rparr>) \<or>
      fuseSearch fuseSite FUSE_DEFAULT_OPTIONS [''Quux'']
        (brandQuery ''Foo''
           (normalize_name (the (brand \<lparr>name = Some ''Foo'', brand = Some ''Bar'', url = None\<rparr>)))) = [])"
    by (simp add: normalize_name_examples fuseSite_search)
  have e1: "fuseSearch fuseSite FUSE_DEFAULT_OPTIONS [''Quux''] ''Foo'' = []"
    by (simp add: fuseSite_search)
  have h2: "name \<lparr>name = Some ''Foo'', brand = Some ''Bar'', url = None\<rparr> = Some ''Foo'' \<and>
     ''Foo'' = normalize_name ''Foo'' \<and>
     [''FooBar'', ''Foo Baz''] = map normalize_name [''Foo-Bar'', ''Foo Baz''] \<and>
     (\<not> truthyString (brand \<lparr>name = Some ''Foo'', brand = Some ''Bar'', url = None\<rparr>) \<or>
      fuseSearch fuseSite FUSE_DEFAULT_OPTIONS [''FooBar'', ''Foo Baz'']
        (brandQuery ''Foo''
           (normalize_name (the (brand \<lparr>name = Some ''Foo'', brand = Some ''Bar'', url = None\<rparr>)))) = [])"
    by (simp add: normalize_name_examples fuseSite_search)
  have e2: "fuseSearch fuseSite FUSE_DEFAULT_OPTIONS [''FooBar'', ''Foo Baz''] ''Foo'' \<noteq> []"
    by (simp add: fuseSite_search)
  from fuseSearchProduct_brandless_fallback
         [where info = "\<lparr>name = Some ''Foo'', brand = Some ''Bar'', url = None\<rparr>"
            and rawName = "''Foo''" and nm = "''Foo''" and nms = "[''Quux'']"
            and productNames = "[''Quux'']" and P = fuseSite and opts = FUSE_DEFAULT_OPTIONS
            and optionsBrand = defaultThresholds and optionsBrandless = defaultThresholds,
          rule_format, OF h1, THEN conjunct1, rule_format, OF e1]
       fuseSearchProduct_brandless_fallback
         [where info = "\<lparr>name = Some ''Foo'', brand = Some ''Bar'', url = None\<rparr>"
            and rawName = "''Foo''" and nm = "''Foo''" and nms = "[''FooBar'', ''Foo Baz'']"
            and productNames = "[''Foo-Bar'', ''Foo Baz'']" and P = fuseSite
            and opts = FUSE_DEFAULT_OPTIONS and optionsBrand = defaultThresholds
            and optionsBrandless =
              "\<lparr>firstScore = 19 / 100, firstScoreWarning = 5 / 100, difference = 3 / 100\<rparr>",
          rule_format, OF h2, THEN conjunct2, THEN conjunct1, rule_format, OF e2]
  show ?thesis
    by (simp add: fuseSite_search rankFirst_def FUSE_DEFAULT_OPTIONS_def)
qed

text \<open>A call that classifies its top hit as 2 leaves \<open>fieldNormWeight = 0.5\<close> in the
  module-level options, whatever Fuse.js computes.\<close>

lemma rankFirst_relevance_2:
  assumes "fst (rankFirst P opts nms q res th) = Inr m" and "relevance m = 2"
  shows "snd (rankFirst P opts nms q res th) = opts\<lparr>fieldNormWeight := 1 / 2\<rparr>"
proof (cases "assessRelevance res th")
  case (Inl e)
  with assms show ?thesis by (simp add: rankFirst_def)
next
  case (Inr rel)
  show ?thesis
  proof (cases "rel = 2")
    case True
    with Inr show ?thesis
      by (cases "fuseSearch P (opts\<lparr>fieldNormWeight := 1 / 2\<rparr>) nms q")
         (simp_all add: rankFirst_def)
  next
    case False
    with Inr have r: "rankFirst P opts nms q res th =
        (case res of [] \<Rightarrow> (Inl TypeError, opts)
         | r0 # rest \<Rightarrow> (Inr \<lparr>index = refIndex r0, relevance = rel\<rparr>, opts))"
      by (simp add: rankFirst_def)
    show ?thesis
    proof (cases res)
      case Nil
      with r assms(1) show ?thesis by simp
    next
      case (Cons r0 rest)
      with r assms(1) have "m = \<lparr>index = refIndex r0, relevance = rel\<rparr>" by simp
      with assms(2) False show ?thesis by simp
    qed
  qed
qed

lemma fuseSearchProduct_relevance_2_persists:
  assumes "fst (fuseSearchProduct P opts info productNames optionsBrand optionsBrandless) = Inr m"
    and "relevance m = 2"
  shows "snd (fuseSearchProduct P opts info productNames optionsBrand optionsBrandless) =
     opts\<lparr>fieldNormWeight := 1 / 2\<rparr>"
proof (cases "name info")
  case None
  with assms show ?thesis by (simp add: fuseSearchProduct_def)
next
  case (Some rawName)
  define nm where "nm = normalize_name rawName"
  define nms where "nms = map normalize_name productNames"
  define qb where "qb = brandQuery nm (normalize_name (the (brand info)))"
  define rb where "rb = (if truthyString (brand info) then fuseSearch P opts nms qb else [])"
  have f: "fuseSearchProduct P opts info productNames optionsBrand optionsBrandless =
      (if length rb = 0
       then (if length (fuseSearch P opts nms nm) = 0 then (Inl (FuseCannotFind rawName), opts)
             else rankFirst P opts nms nm (fuseSearch P opts nms nm) optionsBrandless)
       else rankFirst P opts nms qb rb optionsBrand)"
    using Some by (simp add: fuseSearchProduct_def Let_def nm_def nms_def qb_def rb_def)
  show ?thesis
  proof (cases "length rb = 0")
    case False
    with f assms show ?thesis by (simp add: rankFirst_relevance_2)
  next
    case True
    show ?thesis
    proof (cases "length (fuseSearch P opts nms nm) = 0")
      case True
      with \<open>length rb = 0\<close> f assms show ?thesis by simp
    next
      case False
      with \<open>length rb = 0\<close> f assms show ?thesis by (simp add: rankFirst_relevance_2)
    qed
  qed
qed


section \<open>Relevance classification, verified\<close>

text \<open>
  C6. For every non-empty result list and threshold triple: a top score greater than or
  equal to \<open>firstScore\<close> classifies as 0, so a top score exactly equal to the threshold
  classifies as 0; a top score below \<open>firstScore\<close> and greater than or equal to
  \<open>firstScoreWarning\<close> classifies as 1.
\<close>

theorem assessRelevance_boundary:
  "results \<noteq> [] \<Longrightarrow>
   (score (hd results) \<ge> firstScore th \<longrightarrow> assessRelevance results th = Inr 0) \<and>
   (score (hd results) = firstScore th \<longrightarrow> assessRelevance results th = Inr 0) \<and>
   (score (hd results) < firstScore th \<and> score (hd results) \<ge> firstScoreWarning th
      \<longrightarrow> assessRelevance results th = Inr 1)"
  by (cases results) auto

theorem assessRelevance_boundary_witness:
  "assessRelevance [\<lparr>refIndex = 0, score = 19 / 100\<rparr>]
       \<lparr>firstScore = 19 / 100, firstScoreWarning = 11 / 100, difference = 3 / 100\<rparr> = Inr 0 \<and>
   assessRelevance [\<lparr>refIndex = 4, score = 1 / 2\<rparr>, \<lparr>refIndex = 1, score = 3 / 4\<rparr>]
       \<lparr>firstScore = 19 / 100, firstScoreWarning = 11 / 100, difference = 3 / 100\<rparr> = Inr 0 \<and>
   assessRelevance [\<lparr>refIndex = 2, score = 11 / 100\<rparr>]
       \<lparr>firstScore = 19 / 100, firstScoreWarning = 11 / 100, difference = 3 / 100\<rparr> = Inr 1"
  using assessRelevance_boundary
      [of "[\<lparr>refIndex = 0, score = 19 / 100\<rparr>]"
          "\<lparr>firstScore = 19 / 100, firstScoreWarning = 11 / 100, difference = 3 / 100\<rparr>"]
    assessRelevance_boundary
      [of "[\<lparr>refIndex = 4, score = 1 / 2\<rparr>, \<lparr>refIndex = 1, score = 3 / 4\<rparr>]"
          "\<lparr>firstScore = 19 / 100, firstScoreWarning = 11 / 100, difference = 3 / 100\<rparr>"]
    assessRelevance_boundary
      [of "[\<lparr>refIndex = 2, score = 11 / 100\<rparr>]"
          "\<lparr>firstScore = 19 / 100, firstScoreWarning = 11 / 100, difference = 3 / 100\<rparr>"]
  by simp

end
